theory Spec2Isabelle
  imports Complex_Main "HOL-Library.Multiset"
begin

section \<open>Data model\<close>

text \<open>
  The schema module (\<^verbatim>\<open>shared/schema\<close>) is not among the sources; the field types
  below are the ones the code relies on where it reads the fields. Identifiers are
  database keys, modelled as natural numbers. The fields of a quiz response carry the
  prefix \<open>q_\<close>, since \<open>ambience\<close> and \<open>petFriendly\<close> also name fields of a cafe; the key
  \<open>id\<close> is written \<open>cafe_id\<close> and \<open>user_id\<close>.
\<close>

record Cafe =
  cafe_id :: nat
  name :: string
  latitude :: real
  longitude :: real
  budgetRange :: string
  ambience :: string
  noiseLevel :: string
  lighting :: string
  seatingStyle :: string
  plugPoints :: bool
  petFriendly :: bool
  instaWorthiness :: string
  workFriendly :: bool
  wifiQuality :: string

text \<open>
  \<open>q_ambience\<close> is optional: the scorer reads it through \<^verbatim>\<open>?.includes\<close>, which yields
  \<^verbatim>\<open>undefined\<close> (falsy) when the field is absent.
\<close>

record QuizResponse =
  q_budget :: string
  q_ambience :: "string list option"
  q_mood :: string
  q_petFriendly :: bool

section \<open>The fallback scorer\<close>

text \<open>
  \<^verbatim>\<open>calculateFallbackScore\<close> of \<^verbatim>\<open>RecombeeRecommendationEngine\<close>: the variable
  \<^verbatim>\<open>score\<close> starts at 0 and each satisfied test adds its constant. The \<^verbatim>\<open>switch\<close> on
  the mood compares with \<^verbatim>\<open>===\<close> and every case ends in \<^verbatim>\<open>break\<close>, so it is an
  if-chain without a default branch. All summands are small integers, so the JavaScript
  number is an \<open>int\<close> here.
\<close>

definition ambienceIncludes :: "QuizResponse \<Rightarrow> Cafe \<Rightarrow> bool" where
  "ambienceIncludes quizResponse cafe =
    (case q_ambience quizResponse of
       None \<Rightarrow> False
     | Some wanted \<Rightarrow> ambience cafe \<in> set wanted)"

definition calculateFallbackScore :: "QuizResponse \<Rightarrow> Cafe \<Rightarrow> int" where
  "calculateFallbackScore quizResponse cafe =
    (let score = 0;
         score = (if q_budget quizResponse = budgetRange cafe then score + 3 else score);
         score = (if ambienceIncludes quizResponse cafe then score + 4 else score);
         score =
          (if q_mood quizResponse = ''study'' then
             (let score = (if noiseLevel cafe = ''Quiet'' then score + 3 else score);
                  score = (if workFriendly cafe then score + 2 else score);
                  score = (if plugPoints cafe then score + 1 else score)
              in score)
           else if q_mood quizResponse = ''work'' then
             (let score = (if workFriendly cafe then score + 4 else score);
                  score = (if wifiQuality cafe = ''Excellent'' then score + 2 else score);
                  score = (if plugPoints cafe then score + 2 else score)
              in score)
           else if q_mood quizResponse = ''date'' then
             (let score = (if ambience cafe = ''Aesthetic'' then score + 3 else score);
                  score = (if lighting cafe = ''Moody'' then score + 2 else score);
                  score = (if seatingStyle cafe = ''Booths'' then score + 1 else score)
              in score)
           else if q_mood quizResponse = ''hangout'' then
             (let score = (if noiseLevel cafe = ''Social'' then score + 2 else score);
                  score = (if ambience cafe = ''Cozy'' then score + 2 else score)
              in score)
           else score);
         score = (if instaWorthiness cafe = ''High'' then score + 2 else score);
         score = (if petFriendly cafe \<and> q_petFriendly quizResponse then score + 1 else score)
     in score)"

section \<open>Ranking\<close>

text \<open>
  \<^verbatim>\<open>Array.prototype.sort\<close> with a comparison function. ECMAScript requires the sort to
  be stable, and for a consistent comparison function the result is then determined: the
  elements in ascending order of the comparison, equal ones in their original order.
  Insertion from the right, placing an element in front of the first one it does not
  compare greater than, computes that result.
\<close>

fun insertBy :: "('a \<Rightarrow> 'a \<Rightarrow> int) \<Rightarrow> 'a \<Rightarrow> 'a list \<Rightarrow> 'a list" where
  "insertBy cmp x [] = [x]"
| "insertBy cmp x (y # ys) =
     (if cmp x y \<le> 0 then x # y # ys else y # insertBy cmp x ys)"

definition arraySort :: "('a \<Rightarrow> 'a \<Rightarrow> int) \<Rightarrow> 'a list \<Rightarrow> 'a list" where
  "arraySort cmp xs = foldr (insertBy cmp) xs []"

text \<open>The objects \<^verbatim>\<open>{id, score}\<close> built by the ranking are pairs here.\<close>

type_synonym scoredCafe = "nat \<times> int"

definition scoredCafes :: "QuizResponse \<Rightarrow> Cafe list \<Rightarrow> scoredCafe list" where
  "scoredCafes quizResponse cafes =
     map (\<lambda>cafe. (cafe_id cafe, calculateFallbackScore quizResponse cafe)) cafes"

text \<open>The comparison function \<^verbatim>\<open>(a, b) => b.score - a.score\<close>.\<close>

definition byScoreDesc :: "scoredCafe \<Rightarrow> scoredCafe \<Rightarrow> int" where
  "byScoreDesc a b = snd b - snd a"

text \<open>The sorted and sliced array, before the identifiers are projected out.\<close>

definition rankedCafes :: "QuizResponse \<Rightarrow> Cafe list \<Rightarrow> scoredCafe list" where
  "rankedCafes quizResponse cafes =
     take 10 (arraySort byScoreDesc (scoredCafes quizResponse cafes))"

section \<open>The recommendation engines\<close>

record User =
  user_id :: nat
  quizResponses :: "QuizResponse option"

text \<open>The fields \<^verbatim>\<open>userId\<close> and \<^verbatim>\<open>cafeId\<close> of an interaction carry the prefix \<open>i_\<close>.\<close>

record UserInteraction =
  i_userId :: nat
  i_cafeId :: nat
  interactionType :: string

text \<open>
  The two classes implementing the engine interface. Only the first has a field
  (\<^verbatim>\<open>isInitialized\<close>). What the methods print to the console is returned as a list of
  lines.
\<close>

datatype RecommendationEngine =
  RecombeeRecommendationEngine bool
| AlgoliaRecommendationEngine

datatype logLine =
  SmartEngineInitialized
| AlgoliaEngineInitialized
| UserAdded nat
| CafeAdded string
| InteractionTracked string nat
| UsingRecombee
| UsingFallbackEngine

fun initialize :: "RecommendationEngine \<Rightarrow> RecommendationEngine \<times> logLine list" where
  "initialize (RecombeeRecommendationEngine isInitialized) =
     (RecombeeRecommendationEngine True, [SmartEngineInitialized])"
| "initialize AlgoliaRecommendationEngine =
     (AlgoliaRecommendationEngine, [AlgoliaEngineInitialized])"

fun addUser :: "RecommendationEngine \<Rightarrow> User \<Rightarrow> RecommendationEngine \<times> logLine list" where
  "addUser (RecombeeRecommendationEngine isInitialized) user =
     (RecombeeRecommendationEngine isInitialized, [UserAdded (user_id user)])"
| "addUser AlgoliaRecommendationEngine user = (AlgoliaRecommendationEngine, [])"

fun addCafe :: "RecommendationEngine \<Rightarrow> Cafe \<Rightarrow> RecommendationEngine \<times> logLine list" where
  "addCafe (RecombeeRecommendationEngine isInitialized) cafe =
     (RecombeeRecommendationEngine isInitialized, [CafeAdded (name cafe)])"
| "addCafe AlgoliaRecommendationEngine cafe = (AlgoliaRecommendationEngine, [])"

fun addInteraction ::
  "RecommendationEngine \<Rightarrow> UserInteraction \<Rightarrow> RecommendationEngine \<times> logLine list" where
  "addInteraction (RecombeeRecommendationEngine isInitialized) interaction =
     (RecombeeRecommendationEngine isInitialized,
      [InteractionTracked (interactionType interaction) (i_cafeId interaction)])"
| "addInteraction AlgoliaRecommendationEngine interaction = (AlgoliaRecommendationEngine, [])"

text \<open>
  \<^verbatim>\<open>count\<close> is an optional parameter with default 10, written \<open>cnt\<close> here; neither
  class reads it.
\<close>

fun getRecommendations :: "RecommendationEngine \<Rightarrow> nat \<Rightarrow> int option \<Rightarrow> nat list" where
  "getRecommendations (RecombeeRecommendationEngine isInitialized) userId cnt =
     (let cnt = (case cnt of None \<Rightarrow> 10 | Some n \<Rightarrow> n) in [])"
| "getRecommendations AlgoliaRecommendationEngine userId cnt =
     (let cnt = (case cnt of None \<Rightarrow> 10 | Some n \<Rightarrow> n) in [])"

fun getFallbackRecommendations ::
  "RecommendationEngine \<Rightarrow> QuizResponse \<Rightarrow> Cafe list \<Rightarrow> nat list" where
  "getFallbackRecommendations (RecombeeRecommendationEngine isInitialized) quizResponse cafes =
     map fst (rankedCafes quizResponse cafes)"
| "getFallbackRecommendations AlgoliaRecommendationEngine quizResponse cafes =
     map cafe_id (take 5 cafes)"

text \<open>
  \<^verbatim>\<open>createRecommendationEngine\<close>: the two environment variables are absent (\<open>None\<close>) or
  strings; a string is truthy when it is not empty.
\<close>

definition createRecommendationEngine ::
  "string option \<Rightarrow> string option \<Rightarrow> RecommendationEngine \<times> logLine list" where
  "createRecommendationEngine recombeeDbId recombeePrivateToken =
     (if (recombeeDbId \<noteq> None \<and> recombeeDbId \<noteq> Some [])
         \<and> (recombeePrivateToken \<noteq> None \<and> recombeePrivateToken \<noteq> Some [])
      then (RecombeeRecommendationEngine False, [UsingRecombee])
      else (AlgoliaRecommendationEngine, [UsingFallbackEngine]))"

text \<open>Calls made on an engine over its lifetime, for statements about any history.\<close>

datatype engineCall =
  Initialize
| AddUser User
| AddCafe Cafe
| AddInteraction UserInteraction

fun perform :: "RecommendationEngine \<Rightarrow> engineCall \<Rightarrow> RecommendationEngine" where
  "perform engine Initialize = fst (initialize engine)"
| "perform engine (AddUser user) = fst (addUser engine user)"
| "perform engine (AddCafe cafe) = fst (addCafe engine cafe)"
| "perform engine (AddInteraction interaction) = fst (addInteraction engine interaction)"

definition performAll :: "RecommendationEngine \<Rightarrow> engineCall list \<Rightarrow> RecommendationEngine" where
  "performAll engine calls = foldl perform engine calls"

section \<open>Storage\<close>

text \<open>
  The database tables read by the operations below, as lists of rows. A selection by key
  takes the first matching row (\<^verbatim>\<open>const [user] = ...; return user || undefined\<close>).
\<close>

record database =
  users_table :: "User list"
  cafes_table :: "Cafe list"

definition getUser :: "database \<Rightarrow> nat \<Rightarrow> User option" where
  "getUser db ident = find (\<lambda>user. user_id user = ident) (users_table db)"

definition getAllCafes :: "database \<Rightarrow> Cafe list" where
  "getAllCafes db = cafes_table db"

definition getCafe :: "database \<Rightarrow> nat \<Rightarrow> Cafe option" where
  "getCafe db ident = find (\<lambda>cafe. cafe_id cafe = ident) (cafes_table db)"

text \<open>
  Errors of the operations: the invalid-argument error the specification names, the
  not-found answer of the recommendations route, and a query that the database aborts.
\<close>

datatype error = InvalidArgument | UserNotFound | QueryFailed

text \<open>
  The selection predicate of \<^verbatim>\<open>getCafesNearLocation\<close> is an SQL expression that the
  database evaluates in double precision. The arithmetic of the database is a parameter:
  the operations the expression uses, on the real numbers that the doubles denote. An
  operation yields a number or raises (\<open>None\<close>), as the rounded operations of the database
  do on overflow and underflow.
\<close>

record float8 =
  f8_times :: "real \<Rightarrow> real \<Rightarrow> real option"
  f8_plus :: "real \<Rightarrow> real \<Rightarrow> real option"
  f8_minus :: "real \<Rightarrow> real \<Rightarrow> real option"
  f8_cos :: "real \<Rightarrow> real option"
  f8_sin :: "real \<Rightarrow> real option"
  f8_acos :: "real \<Rightarrow> real option"
  f8_radians :: "real \<Rightarrow> real option"

text \<open>
  An operation applied to subexpressions: it raises when a subexpression does. \<^verbatim>\<open>acos\<close>
  raises \<^verbatim>\<open>input is out of range\<close> for an argument below -1 or above 1; the expression
  of the source passes its argument to \<^verbatim>\<open>acos\<close> as computed, without clamping.
\<close>

definition lift1 :: "(real \<Rightarrow> real option) \<Rightarrow> real option \<Rightarrow> real option" where
  "lift1 f a = (case a of None \<Rightarrow> None | Some x \<Rightarrow> f x)"

definition lift2 ::
  "(real \<Rightarrow> real \<Rightarrow> real option) \<Rightarrow> real option \<Rightarrow> real option \<Rightarrow> real option" where
  "lift2 f a b =
     (case a of None \<Rightarrow> None | Some x \<Rightarrow> (case b of None \<Rightarrow> None | Some y \<Rightarrow> f x y))"

definition sqlAcos :: "float8 \<Rightarrow> real option \<Rightarrow> real option" where
  "sqlAcos sql a = lift1 (\<lambda>x. if x < - 1 \<or> 1 < x then None else f8_acos sql x) a"

text \<open>
  The argument of \<^verbatim>\<open>acos\<close> in the source, \<^verbatim>\<open>cos(radians(lat)) *
  cos(radians(latitude)) * cos(radians(longitude) - radians(lng)) + sin(radians(lat)) *
  sin(radians(latitude))\<close>, and the distance \<^verbatim>\<open>6371 * acos(...)\<close>.
\<close>

definition acosArgument :: "float8 \<Rightarrow> real \<Rightarrow> real \<Rightarrow> Cafe \<Rightarrow> real option" where
  "acosArgument sql lat lng cafe =
     lift2 (f8_plus sql)
       (lift2 (f8_times sql)
          (lift2 (f8_times sql)
             (lift1 (f8_cos sql) (f8_radians sql lat))
             (lift1 (f8_cos sql) (f8_radians sql (latitude cafe))))
          (lift1 (f8_cos sql)
             (lift2 (f8_minus sql) (f8_radians sql (longitude cafe)) (f8_radians sql lng))))
       (lift2 (f8_times sql)
          (lift1 (f8_sin sql) (f8_radians sql lat))
          (lift1 (f8_sin sql) (f8_radians sql (latitude cafe))))"

definition distanceKm :: "float8 \<Rightarrow> real \<Rightarrow> real \<Rightarrow> Cafe \<Rightarrow> real option" where
  "distanceKm sql lat lng cafe =
     lift2 (f8_times sql) (Some 6371) (sqlAcos sql (acosArgument sql lat lng cafe))"

text \<open>
  A selection without index or limit evaluates its condition on every row; a row on
  which the condition raises aborts the query, and the promise is rejected.
\<close>

fun selectWhere :: "('a \<Rightarrow> bool option) \<Rightarrow> 'a list \<Rightarrow> error + 'a list" where
  "selectWhere cond [] = Inr []"
| "selectWhere cond (row # rows) =
     (case cond row of
        None \<Rightarrow> Inl QueryFailed
      | Some keep \<Rightarrow>
          (case selectWhere cond rows of
             Inl e \<Rightarrow> Inl e
           | Inr selected \<Rightarrow> Inr (if keep then row # selected else selected)))"

text \<open>
  \<^verbatim>\<open>getCafesNearLocation\<close>: the condition is \<^verbatim>\<open>(6371 * acos(...)) <= radiusKm\<close>. There
  is no check of the arguments.
\<close>

definition getCafesNearLocation ::
  "float8 \<Rightarrow> database \<Rightarrow> real \<Rightarrow> real \<Rightarrow> real \<Rightarrow> error + Cafe list" where
  "getCafesNearLocation sql db lat lng radiusKm =
     selectWhere (\<lambda>cafe. map_option (\<lambda>d. d \<le> radiusKm) (distanceKm sql lat lng cafe))
       (cafes_table db)"

section \<open>The recommendations route\<close>

text \<open>
  \<^verbatim>\<open>GET /api/users/:id/recommendations\<close>. The query parameter \<^verbatim>\<open>count\<close> is
  \<^verbatim>\<open>parseInt(...) || 10\<close>: absent, unparsable and zero all give 10. The identifiers
  chosen (the variable \<^verbatim>\<open>recommendedCafeIds\<close> after the fallback step) and the response
  are two definitions.
\<close>

definition queryCount :: "int option \<Rightarrow> int" where
  "queryCount countParam = (case countParam of None \<Rightarrow> 10 | Some n \<Rightarrow> if n = 0 then 10 else n)"

definition recommendedCafeIds ::
  "RecommendationEngine \<Rightarrow> database \<Rightarrow> nat \<Rightarrow> int option \<Rightarrow> error + nat list" where
  "recommendedCafeIds recommendationEngine db userId countParam =
     (let cnt = queryCount countParam in
      case getUser db userId of
        None \<Rightarrow> Inl UserNotFound
      | Some user \<Rightarrow>
          (let recommendedCafeIds = getRecommendations recommendationEngine userId (Some cnt) in
           if recommendedCafeIds = [] \<and> quizResponses user \<noteq> None
           then Inr (getFallbackRecommendations recommendationEngine
                       (the (quizResponses user)) (getAllCafes db))
           else Inr recommendedCafeIds))"

definition recommendationsRoute ::
  "RecommendationEngine \<Rightarrow> database \<Rightarrow> nat \<Rightarrow> int option \<Rightarrow> error + Cafe list" where
  "recommendationsRoute recommendationEngine db userId countParam =
     (case recommendedCafeIds recommendationEngine db userId countParam of
        Inl e \<Rightarrow> Inl e
      | Inr ids \<Rightarrow> Inr (List.map_filter (getCafe db) ids))"

section \<open>The specification's scoring table and distance formula\<close>

text \<open>
  The rule table of the specification, written from its words: each row is a condition
  with its points, and the score is the sum of the points of the rows whose condition
  holds. The desired ambiences are a set, empty when the profile names none.
\<close>

definition desiredAmbiences :: "QuizResponse \<Rightarrow> string set" where
  "desiredAmbiences profile =
     (case q_ambience profile of None \<Rightarrow> {} | Some wanted \<Rightarrow> set wanted)"

definition specRules :: "QuizResponse \<Rightarrow> Cafe \<Rightarrow> (bool \<times> int) list" where
  "specRules profile venue =
     [(q_budget profile = budgetRange venue, 3),
      (ambience venue \<in> desiredAmbiences profile, 4),
      (q_mood profile = ''study'' \<and> noiseLevel venue = ''Quiet'', 3),
      (q_mood profile = ''study'' \<and> workFriendly venue, 2),
      (q_mood profile = ''study'' \<and> plugPoints venue, 1),
      (q_mood profile = ''work'' \<and> workFriendly venue, 4),
      (q_mood profile = ''work'' \<and> wifiQuality venue = ''Excellent'', 2),
      (q_mood profile = ''work'' \<and> plugPoints venue, 2),
      (q_mood profile = ''date'' \<and> ambience venue = ''Aesthetic'', 3),
      (q_mood profile = ''date'' \<and> lighting venue = ''Moody'', 2),
      (q_mood profile = ''date'' \<and> seatingStyle venue = ''Booths'', 1),
      (q_mood profile = ''hangout'' \<and> noiseLevel venue = ''Social'', 2),
      (q_mood profile = ''hangout'' \<and> ambience venue = ''Cozy'', 2),
      (instaWorthiness venue = ''High'', 2),
      (petFriendly venue \<and> q_petFriendly profile, 1)]"

definition specScore :: "QuizResponse \<Rightarrow> Cafe \<Rightarrow> int" where
  "specScore profile venue = sum_list (map snd (filter fst (specRules profile venue)))"

text \<open>The rows that do not mention the mood.\<close>

definition moodIndependentRules :: "QuizResponse \<Rightarrow> Cafe \<Rightarrow> (bool \<times> int) list" where
  "moodIndependentRules profile venue =
     [(q_budget profile = budgetRange venue, 3),
      (ambience venue \<in> desiredAmbiences profile, 4),
      (instaWorthiness venue = ''High'', 2),
      (petFriendly venue \<and> q_petFriendly profile, 1)]"

text \<open>
  Scenario A of the specification. The budget tier is two rupee signs, each the three
  bytes of its UTF-8 encoding. The scenario fixes seven venue fields and leaves the others
  open, so the venue is any cafe updated at those seven.
\<close>

definition twoRupees :: string where
  "twoRupees = map char_of [226, 130, 185, 226, 130, 185 :: nat]"

definition scenarioProfile :: QuizResponse where
  "scenarioProfile =
     \<lparr>q_budget = twoRupees, q_ambience = Some [''Cozy''], q_mood = ''study'',
      q_petFriendly = False\<rparr>"

definition scenarioVenue :: "Cafe \<Rightarrow> Cafe" where
  "scenarioVenue cafe =
     cafe\<lparr>budgetRange := twoRupees, ambience := ''Cozy'', noiseLevel := ''Quiet'',
          workFriendly := True, plugPoints := True, instaWorthiness := ''Low'',
          petFriendly := False\<rparr>"

text \<open>
  The haversine distance of the specification, \<open>2R asin (sqrt (sin\<^sup>2 (\<Delta>lat/2) +
  cos lat1 cos lat2 sin\<^sup>2 (\<Delta>lng/2)))\<close> with \<open>R = 6371\<close>, on angles in radians, in
  exact arithmetic.
\<close>

definition radians :: "real \<Rightarrow> real" where
  "radians deg = deg * pi / 180"

definition haversineKm :: "real \<Rightarrow> real \<Rightarrow> Cafe \<Rightarrow> real" where
  "haversineKm lat lng cafe =
     2 * 6371 * arcsin (sqrt (
       (sin ((radians (latitude cafe) - radians lat) / 2))\<^sup>2 +
       cos (radians lat) * cos (radians (latitude cafe)) *
       (sin ((radians (longitude cafe) - radians lng) / 2))\<^sup>2))"

text \<open>
  Two arithmetics for the concrete instances below: the exact one, in which no operation
  rounds or raises, and one that differs from it only in an addition that errs upward by
  \<open>2\<^sup>-\<^sup>5\<^sup>2\<close>, one unit in the last place of a double at 1.
\<close>

definition exactFloat8 :: float8 where
  "exactFloat8 =
     \<lparr>f8_times = (\<lambda>x y. Some (x * y)), f8_plus = (\<lambda>x y. Some (x + y)),
      f8_minus = (\<lambda>x y. Some (x - y)), f8_cos = (\<lambda>x. Some (cos x)),
      f8_sin = (\<lambda>x. Some (sin x)), f8_acos = (\<lambda>x. Some (arccos x)),
      f8_radians = (\<lambda>x. Some (radians x))\<rparr>"

definition upwardFloat8 :: float8 where
  "upwardFloat8 = exactFloat8\<lparr>f8_plus := (\<lambda>x y. Some (x + y + 1 / 2 ^ 52))\<rparr>"

text \<open>
  What the negative-radius property needs of the arithmetic: \<^verbatim>\<open>acos\<close> yields no negative
  number on its domain, and the product of 6371 and a number that is not negative is not
  negative.
\<close>

definition nonNegativeDistances :: "float8 \<Rightarrow> bool" where
  "nonNegativeDistances sql \<longleftrightarrow>
     (\<forall>x y. - 1 \<le> x \<and> x \<le> 1 \<and> f8_acos sql x = Some y \<longrightarrow> 0 \<le> y)
     \<and> (\<forall>y z. 0 \<le> y \<and> f8_times sql 6371 y = Some z \<longrightarrow> 0 \<le> z)"

text \<open>Sample rows for the concrete instances below.\<close>

definition sampleCafe :: "nat \<Rightarrow> string \<Rightarrow> Cafe" where
  "sampleCafe ident insta =
     \<lparr>cafe_id = ident, name = ''cafe'', latitude = 0, longitude = 0,
      budgetRange = ''mid'', ambience = ''Cozy'', noiseLevel = ''Quiet'',
      lighting = ''Bright'', seatingStyle = ''Tables'', plugPoints = False,
      petFriendly = False, instaWorthiness = insta, workFriendly = False,
      wifiQuality = ''Good''\<rparr>"

definition sampleQuiz :: "string \<Rightarrow> QuizResponse" where
  "sampleQuiz mood =
     \<lparr>q_budget = ''low'', q_ambience = None, q_mood = mood, q_petFriendly = False\<rparr>"

definition emptyDatabase :: database where
  "emptyDatabase = \<lparr>users_table = [], cafes_table = []\<rparr>"

definition sampleDatabase :: database where
  "sampleDatabase =
     \<lparr>users_table =
        [\<lparr>user_id = 1, quizResponses = Some (sampleQuiz ''study'')\<rparr>,
         \<lparr>user_id = 2, quizResponses = None\<rparr>],
      cafes_table = [sampleCafe 1 ''Low'', sampleCafe 2 ''High'']\<rparr>"

section \<open>Properties of the scorer\<close>

lemma if_add_const: "(if b then (s::int) + k else s) = s + (if b then k else 0)"
  by simp

lemma if_add_both: "(if b then (s::int) + x else s + y) = s + (if b then x else y)"
  by simp

text \<open>The scorer as one sum: the running variable is eliminated.\<close>

lemma score_additive:
  "calculateFallbackScore q c =
     (if q_budget q = budgetRange c then 3 else 0)
   + (if ambienceIncludes q c then 4 else 0)
   + (if q_mood q = ''study'' then
        (if noiseLevel c = ''Quiet'' then 3 else 0) + (if workFriendly c then 2 else 0)
        + (if plugPoints c then 1 else 0)
      else if q_mood q = ''work'' then
        (if workFriendly c then 4 else 0) + (if wifiQuality c = ''Excellent'' then 2 else 0)
        + (if plugPoints c then 2 else 0)
      else if q_mood q = ''date'' then
        (if ambience c = ''Aesthetic'' then 3 else 0) + (if lighting c = ''Moody'' then 2 else 0)
        + (if seatingStyle c = ''Booths'' then 1 else 0)
      else if q_mood q = ''hangout'' then
        (if noiseLevel c = ''Social'' then 2 else 0) + (if ambience c = ''Cozy'' then 2 else 0)
      else 0)
   + (if instaWorthiness c = ''High'' then 2 else 0)
   + (if petFriendly c \<and> q_petFriendly q then 1 else 0)"
  unfolding calculateFallbackScore_def Let_def
  by (simp only: if_add_const if_add_both add.assoc add_0 add_0_right cong: if_cong)

lemma points_Cons:
  "sum_list (map snd (filter fst ((b, k) # rules))) =
     (if b then k else 0) + sum_list (map snd (filter fst rules :: (bool \<times> int) list))"
  by simp

lemma points_Nil: "sum_list (map snd (filter fst ([] :: (bool \<times> int) list))) = 0"
  by simp

lemma specScore_additive:
  "specScore q c =
     (if q_budget q = budgetRange c then 3 else 0)
   + ((if ambience c \<in> desiredAmbiences q then 4 else 0)
   + ((if q_mood q = ''study'' \<and> noiseLevel c = ''Quiet'' then 3 else 0)
   + ((if q_mood q = ''study'' \<and> workFriendly c then 2 else 0)
   + ((if q_mood q = ''study'' \<and> plugPoints c then 1 else 0)
   + ((if q_mood q = ''work'' \<and> workFriendly c then 4 else 0)
   + ((if q_mood q = ''work'' \<and> wifiQuality c = ''Excellent'' then 2 else 0)
   + ((if q_mood q = ''work'' \<and> plugPoints c then 2 else 0)
   + ((if q_mood q = ''date'' \<and> ambience c = ''Aesthetic'' then 3 else 0)
   + ((if q_mood q = ''date'' \<and> lighting c = ''Moody'' then 2 else 0)
   + ((if q_mood q = ''date'' \<and> seatingStyle c = ''Booths'' then 1 else 0)
   + ((if q_mood q = ''hangout'' \<and> noiseLevel c = ''Social'' then 2 else 0)
   + ((if q_mood q = ''hangout'' \<and> ambience c = ''Cozy'' then 2 else 0)
   + ((if instaWorthiness c = ''High'' then 2 else 0)
   + ((if petFriendly c \<and> q_petFriendly q then 1 else 0) + 0))))))))))))))"
  unfolding specScore_def specRules_def
  by (simp only: points_Cons points_Nil)

lemma ambienceIncludes_iff: "ambienceIncludes q c \<longleftrightarrow> ambience c \<in> desiredAmbiences q"
  by (simp add: ambienceIncludes_def desiredAmbiences_def split: option.split)

lemma mood_cases:
  assumes "m = ''study'' \<Longrightarrow> P" and "m = ''work'' \<Longrightarrow> P" and "m = ''date'' \<Longrightarrow> P"
    and "m = ''hangout'' \<Longrightarrow> P"
    and "m \<notin> {''study'', ''work'', ''date'', ''hangout''} \<Longrightarrow> P"
  shows P
  using assms by blast

lemma score_eq_specScore: "calculateFallbackScore q c = specScore q c"
proof (rule mood_cases [of "q_mood q"])
  assume "q_mood q = ''study''"
  then show ?thesis
    by (simp add: score_additive specScore_additive ambienceIncludes_iff split del: if_split)
next
  assume "q_mood q = ''work''"
  then show ?thesis
    by (simp add: score_additive specScore_additive ambienceIncludes_iff split del: if_split)
next
  assume "q_mood q = ''date''"
  then show ?thesis
    by (simp add: score_additive specScore_additive ambienceIncludes_iff split del: if_split)
next
  assume "q_mood q = ''hangout''"
  then show ?thesis
    by (simp add: score_additive specScore_additive ambienceIncludes_iff split del: if_split)
next
  assume "q_mood q \<notin> {''study'', ''work'', ''date'', ''hangout''}"
  then show ?thesis
    by (simp add: score_additive specScore_additive ambienceIncludes_iff split del: if_split)
qed

lemma score_other_mood:
  "q_mood q \<notin> {''study'', ''work'', ''date'', ''hangout''} \<Longrightarrow>
   calculateFallbackScore q c = sum_list (map snd (filter fst (moodIndependentRules q c)))"
  unfolding moodIndependentRules_def
  by (simp only: points_Cons points_Nil)
     (simp add: score_additive ambienceIncludes_iff split del: if_split)

lemma score_scenario_A: "calculateFallbackScore scenarioProfile (scenarioVenue c) = 13"
  by (simp add: score_additive ambienceIncludes_def scenarioProfile_def scenarioVenue_def)

lemma score_range: "0 \<le> calculateFallbackScore q c \<and> calculateFallbackScore q c \<le> 18"
proof -
  let ?m = "(if q_mood q = ''study'' then
        (if noiseLevel c = ''Quiet'' then 3 else 0) + (if workFriendly c then 2 else 0)
        + (if plugPoints c then 1 else 0)
      else if q_mood q = ''work'' then
        (if workFriendly c then 4 else 0) + (if wifiQuality c = ''Excellent'' then 2 else 0)
        + (if plugPoints c then 2 else 0)
      else if q_mood q = ''date'' then
        (if ambience c = ''Aesthetic'' then 3 else 0) + (if lighting c = ''Moody'' then 2 else 0)
        + (if seatingStyle c = ''Booths'' then 1 else 0)
      else if q_mood q = ''hangout'' then
        (if noiseLevel c = ''Social'' then 2 else 0) + (if ambience c = ''Cozy'' then 2 else 0)
      else 0) :: int"
  let ?a = "(if q_budget q = budgetRange c then 3 else 0) :: int"
  let ?b = "(if ambienceIncludes q c then 4 else 0) :: int"
  let ?d = "(if instaWorthiness c = ''High'' then 2 else 0) :: int"
  let ?e = "(if petFriendly c \<and> q_petFriendly q then 1 else 0) :: int"
  have m: "0 \<le> ?m \<and> ?m \<le> 8" by simp
  have a: "0 \<le> ?a \<and> ?a \<le> 3" by simp
  have b: "0 \<le> ?b \<and> ?b \<le> 4" by simp
  have d: "0 \<le> ?d \<and> ?d \<le> 2" by simp
  have e: "0 \<le> ?e \<and> ?e \<le> 1" by simp
  show ?thesis
    unfolding score_additive using m a b d e by linarith
qed

text \<open>
  Claim C1. For every preference profile and venue, the fallback score is the sum of the
  points of exactly the rows of the rule table whose condition holds; for a mood other
  than study, work, date and hangout only the four rows that do not mention the mood
  contribute; and the profile and venue of scenario A score 13.
\<close>

theorem fallback_score_is_rule_table:
  "calculateFallbackScore profile venue = specScore profile venue
   \<and> (q_mood profile \<notin> {''study'', ''work'', ''date'', ''hangout''} \<longrightarrow>
        calculateFallbackScore profile venue =
          sum_list (map snd (filter fst (moodIndependentRules profile venue))))
   \<and> calculateFallbackScore scenarioProfile (scenarioVenue venue) = 13"
  using score_eq_specScore score_other_mood score_scenario_A by blast

theorem fallback_score_is_rule_table_witness:
  "q_mood (sampleQuiz ''party'') \<notin> {''study'', ''work'', ''date'', ''hangout''}
   \<and> calculateFallbackScore (sampleQuiz ''party'') (sampleCafe 1 ''High'') = 2
   \<and> specScore (sampleQuiz ''party'') (sampleCafe 1 ''High'') = 2
   \<and> calculateFallbackScore scenarioProfile (scenarioVenue (sampleCafe 1 ''High'')) = 13"
  using fallback_score_is_rule_table [of "sampleQuiz ''party''" "sampleCafe 1 ''High''"]
  by (simp add: sampleQuiz_def sampleCafe_def moodIndependentRules_def desiredAmbiences_def)

text \<open>
  Claim C9. For every preference profile and venue, the fallback score is an integer that
  is not negative; it is at most 18, so it is finite and exactly representable.
\<close>

theorem fallback_score_nonnegative:
  "0 \<le> calculateFallbackScore profile venue \<and> calculateFallbackScore profile venue \<le> 18"
  by (rule score_range)

section \<open>Properties of the sort\<close>

lemma arraySort_Nil: "arraySort cmp [] = []"
  by (simp add: arraySort_def)

lemma arraySort_Cons: "arraySort cmp (x # xs) = insertBy cmp x (arraySort cmp xs)"
  by (simp add: arraySort_def)

lemma mset_insertBy: "mset (insertBy cmp x ys) = add_mset x (mset ys)"
  by (induction ys) auto

lemma mset_arraySort: "mset (arraySort cmp xs) = mset xs"
  by (induction xs) (auto simp: arraySort_Nil arraySort_Cons mset_insertBy)

lemma set_arraySort: "set (arraySort cmp xs) = set xs"
  using mset_arraySort [of cmp xs] by (metis set_mset_mset)

lemma length_arraySort: "length (arraySort cmp xs) = length xs"
  using mset_arraySort [of cmp xs] by (metis size_mset)

lemma set_insertBy: "set (insertBy cmp x ys) = insert x (set ys)"
  using mset_insertBy [of cmp x ys] by (metis set_mset_add_mset_insert set_mset_mset)

text \<open>Ordering by a key, largest first: the comparison is \<open>f b - f a\<close>.\<close>

lemma sorted_insertBy:
  fixes f :: "'a \<Rightarrow> int"
  shows "sorted_wrt (\<lambda>a b. f b \<le> f a) ys \<Longrightarrow>
         sorted_wrt (\<lambda>a b. f b \<le> f a) (insertBy (\<lambda>a b. f b - f a) x ys)"
  by (induction ys) (auto simp: set_insertBy)

lemma sorted_arraySort:
  fixes f :: "'a \<Rightarrow> int"
  shows "sorted_wrt (\<lambda>a b. f b \<le> f a) (arraySort (\<lambda>a b. f b - f a) xs)"
  by (induction xs) (auto simp: arraySort_Nil arraySort_Cons sorted_insertBy)

lemma filter_insertBy_other:
  "f x \<noteq> k \<Longrightarrow> filter (\<lambda>y. f y = k) (insertBy cmp x ys) = filter (\<lambda>y. f y = k) ys"
  by (induction ys) auto

lemma filter_insertBy_same:
  fixes f :: "'a \<Rightarrow> int"
  shows "filter (\<lambda>y. f y = f x) (insertBy (\<lambda>a b. f b - f a) x ys) =
         x # filter (\<lambda>y. f y = f x) ys"
  by (induction ys) auto

lemma arraySort_stable:
  fixes f :: "'a \<Rightarrow> int"
  shows "filter (\<lambda>y. f y = k) (arraySort (\<lambda>a b. f b - f a) xs) = filter (\<lambda>y. f y = k) xs"
proof (induction xs)
  case Nil
  then show ?case by (simp add: arraySort_Nil)
next
  case (Cons x xs)
  show ?case
  proof (cases "f x = k")
    case True
    with Cons filter_insertBy_same [of f x] show ?thesis
      by (simp add: arraySort_Cons)
  next
    case False
    with Cons show ?thesis by (simp add: arraySort_Cons filter_insertBy_other)
  qed
qed

lemma insertBy_in_front:
  fixes f :: "'a \<Rightarrow> int"
  shows "\<forall>y\<in>set ys. f y \<le> f x \<Longrightarrow> insertBy (\<lambda>a b. f b - f a) x ys = x # ys"
  by (cases ys) auto

lemma arraySort_of_sorted:
  fixes f :: "'a \<Rightarrow> int"
  shows "sorted_wrt (\<lambda>a b. f b \<le> f a) xs \<Longrightarrow> arraySort (\<lambda>a b. f b - f a) xs = xs"
  by (induction xs) (auto simp: arraySort_Nil arraySort_Cons insertBy_in_front)

lemma insertBy_map:
  "insertBy cmp (g x) (map g ys) = map g (insertBy (\<lambda>a b. cmp (g a) (g b)) x ys)"
  by (induction ys) auto

lemma arraySort_map:
  "arraySort cmp (map g xs) = map g (arraySort (\<lambda>a b. cmp (g a) (g b)) xs)"
  by (induction xs) (auto simp: arraySort_Nil arraySort_Cons insertBy_map)

section \<open>Properties of the ranking\<close>

text \<open>The cafes in the order the sort of their scored pairs gives.\<close>

lemma rankedCafes_as_cafes:
  "rankedCafes q cs =
     map (\<lambda>c. (cafe_id c, calculateFallbackScore q c))
       (take 10 (arraySort (\<lambda>a b. calculateFallbackScore q b - calculateFallbackScore q a) cs))"
  by (simp add: rankedCafes_def scoredCafes_def arraySort_map byScoreDesc_def take_map)

lemma fallback_as_cafes:
  "getFallbackRecommendations (RecombeeRecommendationEngine i) q cs =
     map cafe_id
       (take 10 (arraySort (\<lambda>a b. calculateFallbackScore q b - calculateFallbackScore q a) cs))"
  by (simp add: rankedCafes_as_cafes comp_def)

lemma length_fallback_Recombee:
  "length (getFallbackRecommendations (RecombeeRecommendationEngine i) q cs) = min 10 (length cs)"
  unfolding fallback_as_cafes by (simp add: length_arraySort)

lemma set_fallback_subset:
  "set (getFallbackRecommendations e q cs) \<subseteq> cafe_id ` set cs"
proof (cases e)
  case (RecombeeRecommendationEngine i)
  have "set (take 10 (arraySort (\<lambda>a b. calculateFallbackScore q b - calculateFallbackScore q a) cs))
          \<subseteq> set cs"
    using set_take_subset [of 10] by (metis set_arraySort)
  then show ?thesis
    unfolding RecombeeRecommendationEngine fallback_as_cafes by auto
next
  case AlgoliaRecommendationEngine
  have "set (take 5 cs) \<subseteq> set cs" by (rule set_take_subset)
  then show ?thesis
    unfolding AlgoliaRecommendationEngine by auto
qed

lemma distinct_fallback:
  assumes "distinct (map cafe_id cs)"
  shows "distinct (getFallbackRecommendations e q cs)"
proof (cases e)
  case (RecombeeRecommendationEngine i)
  let ?sorted = "arraySort (\<lambda>a b. calculateFallbackScore q b - calculateFallbackScore q a) cs"
  have "mset (map cafe_id ?sorted) = mset (map cafe_id cs)"
    by (simp add: mset_arraySort)
  then have "distinct (map cafe_id ?sorted)"
    using assms by (metis mset_eq_imp_distinct_iff)
  then have "distinct (take 10 (map cafe_id ?sorted))" by (rule distinct_take)
  then show ?thesis
    unfolding RecombeeRecommendationEngine fallback_as_cafes by (simp add: take_map)
next
  case AlgoliaRecommendationEngine
  from assms have "distinct (take 5 (map cafe_id cs))" by (rule distinct_take)
  then show ?thesis
    unfolding AlgoliaRecommendationEngine by (simp add: take_map)
qed

lemma getRecommendations_empty: "getRecommendations e userId cnt = []"
  by (cases e) simp_all

section \<open>Properties of the distance formula\<close>

lemma abs_mult_le_half_squares: "\<bar>a * b\<bar> \<le> (a\<^sup>2 + b\<^sup>2) / (2::real)"
proof -
  have "0 \<le> (\<bar>a\<bar> - \<bar>b\<bar>)\<^sup>2" by simp
  then have "2 * (\<bar>a\<bar> * \<bar>b\<bar>) \<le> a\<^sup>2 + b\<^sup>2"
    by (simp add: power2_diff)
  then show ?thesis by (simp add: abs_mult)
qed

lemma half_sums_le_one:
  fixes u c1 c2 s1 s2 :: real
  assumes "u \<le> (c1 + c2) / 2 + (s1 + s2) / 2" and "s1 + c1 = 1" and "s2 + c2 = 1"
  shows "u \<le> 1"
  using assms by argo

lemma central_cos_range:
  fixes p1 p2 d :: real
  shows "\<bar>cos p1 * cos p2 * cos d + sin p1 * sin p2\<bar> \<le> 1"
proof -
  have "\<bar>cos p1 * cos p2 * cos d\<bar> = \<bar>cos p1 * cos p2\<bar> * \<bar>cos d\<bar>"
    by (simp add: abs_mult)
  also have "\<dots> \<le> \<bar>cos p1 * cos p2\<bar> * 1"
    by (rule mult_left_mono) simp_all
  finally have c: "\<bar>cos p1 * cos p2 * cos d\<bar> \<le> \<bar>cos p1 * cos p2\<bar>" by simp
  have "\<bar>cos p1 * cos p2\<bar> + \<bar>sin p1 * sin p2\<bar>
          \<le> ((cos p1)\<^sup>2 + (cos p2)\<^sup>2) / 2 + ((sin p1)\<^sup>2 + (sin p2)\<^sup>2) / 2"
    by (intro add_mono abs_mult_le_half_squares)
  then have s: "\<bar>cos p1 * cos p2\<bar> + \<bar>sin p1 * sin p2\<bar> \<le> 1"
    using sin_cos_squared_add [of p1] sin_cos_squared_add [of p2] by (rule half_sums_le_one)
  have "\<bar>cos p1 * cos p2 * cos d + sin p1 * sin p2\<bar>
          \<le> \<bar>cos p1 * cos p2 * cos d\<bar> + \<bar>sin p1 * sin p2\<bar>"
    by (rule abs_triangle_ineq)
  with c s show ?thesis by linarith
qed

lemma cos_eq_one_minus_two_hav:
  fixes p1 p2 d :: real
  shows "cos p1 * cos p2 * cos d + sin p1 * sin p2 =
         1 - 2 * ((sin ((p2 - p1) / 2))\<^sup>2 + cos p1 * cos p2 * (sin (d / 2))\<^sup>2)"
proof -
  have half: "2 * (t / 2) = t" for t :: real by simp
  have d: "cos d = 1 - 2 * (sin (d / 2))\<^sup>2"
    using cos_double_sin [of "d / 2"] unfolding half .
  have p: "cos (p2 - p1) = 1 - 2 * (sin ((p2 - p1) / 2))\<^sup>2"
    using cos_double_sin [of "(p2 - p1) / 2"] unfolding half .
  have "cos p1 * cos p2 * cos d + sin p1 * sin p2 =
        cos (p2 - p1) - 2 * (cos p1 * cos p2 * (sin (d / 2))\<^sup>2)"
    by (simp add: d cos_diff algebra_simps)
  then show ?thesis by (simp add: p algebra_simps)
qed

lemma arccos_one_minus_two: 
  fixes a :: real
  assumes "0 \<le> a" "a \<le> 1"
  shows "arccos (1 - 2 * a) = 2 * arcsin (sqrt a)"
proof -
  let ?t = "arcsin (sqrt a)"
  have r: "0 \<le> sqrt a" "sqrt a \<le> 1" using assms by simp_all
  have s: "sin ?t = sqrt a" using r by (intro sin_arcsin) linarith+
  have "arcsin 0 \<le> ?t" using r by (intro arcsin_le_arcsin) linarith+
  then have lo: "0 \<le> ?t" by simp
  have hi: "?t \<le> pi / 2" using r by (intro arcsin_ubound) linarith+
  have "cos (2 * ?t) = 1 - 2 * (sin ?t)\<^sup>2" by (rule cos_double_sin)
  also have "\<dots> = 1 - 2 * a" using assms by (simp add: s)
  finally have "arccos (1 - 2 * a) = arccos (cos (2 * ?t))" by simp
  also have "\<dots> = 2 * ?t" using lo hi by (intro arccos_cos) simp_all
  finally show ?thesis .
qed

lemma exact_acosArgument:
  "acosArgument exactFloat8 lat lng cafe =
     Some (cos (radians lat) * cos (radians (latitude cafe)) *
           cos (radians (longitude cafe) - radians lng) +
           sin (radians lat) * sin (radians (latitude cafe)))"
  by (simp add: acosArgument_def exactFloat8_def lift1_def lift2_def)

text \<open>In exact arithmetic the expression of the source is the haversine distance.\<close>

lemma exact_distance_is_haversine:
  "distanceKm exactFloat8 lat lng cafe = Some (haversineKm lat lng cafe)"
proof -
  define p1 where "p1 = radians lat"
  define p2 where "p2 = radians (latitude cafe)"
  define d where "d = radians (longitude cafe) - radians lng"
  define a where "a = (sin ((p2 - p1) / 2))\<^sup>2 + cos p1 * cos p2 * (sin (d / 2))\<^sup>2"
  define x where "x = cos p1 * cos p2 * cos d + sin p1 * sin p2"
  have x: "x = 1 - 2 * a"
    unfolding x_def a_def by (rule cos_eq_one_minus_two_hav)
  have range: "\<bar>x\<bar> \<le> 1"
    unfolding x_def by (rule central_cos_range)
  then have a: "0 \<le> a" "a \<le> 1"
    unfolding x by linarith+
  have "arccos x = 2 * arcsin (sqrt a)"
    unfolding x using a by (rule arccos_one_minus_two)
  then have hav: "6371 * arccos x = haversineKm lat lng cafe"
    by (simp add: haversineKm_def a_def p1_def p2_def d_def)
  have arg: "acosArgument exactFloat8 lat lng cafe = Some x"
    by (simp add: exact_acosArgument x_def p1_def p2_def d_def)
  from range have "\<not> (x < - 1 \<or> 1 < x)" by (auto simp: abs_le_iff)
  then have "lift2 (f8_times exactFloat8) (Some 6371) (sqlAcos exactFloat8 (Some x))
               = Some (6371 * arccos x)"
    by (simp add: sqlAcos_def lift1_def lift2_def exactFloat8_def)
  then have "distanceKm exactFloat8 lat lng cafe = Some (6371 * arccos x)"
    by (simp add: distanceKm_def arg)
  with hav show ?thesis by simp
qed

lemma exactFloat8_nonNegative: "nonNegativeDistances exactFloat8"
  by (simp add: nonNegativeDistances_def exactFloat8_def arccos_lbound)

lemma upwardFloat8_nonNegative: "nonNegativeDistances upwardFloat8"
  by (simp add: nonNegativeDistances_def upwardFloat8_def exactFloat8_def arccos_lbound)

section \<open>Properties of the selection\<close>

lemma selectWhere_raises:
  "row \<in> set rows \<Longrightarrow> cond row = None \<Longrightarrow> selectWhere cond rows = Inl QueryFailed"
proof (induction rows)
  case Nil
  then show ?case by simp
next
  case (Cons r rows)
  show ?case
  proof (cases "cond r")
    case None
    then show ?thesis by simp
  next
    case (Some keep)
    with Cons have "row \<in> set rows" by auto
    with Cons have "selectWhere cond rows = Inl QueryFailed" by simp
    with Some show ?thesis by simp
  qed
qed

lemma selectWhere_evaluates:
  "\<forall>row\<in>set rows. cond row \<noteq> None \<Longrightarrow>
   selectWhere cond rows = Inr (filter (\<lambda>row. cond row = Some True) rows)"
  by (induction rows) auto

lemma selectWhere_error: "selectWhere cond rows = Inl e \<Longrightarrow> e = QueryFailed"
  by (induction rows arbitrary: e) (auto split: option.splits sum.splits)

lemma distanceKm_raises:
  "acosArgument sql lat lng cafe = Some x \<Longrightarrow> 1 < x \<Longrightarrow> distanceKm sql lat lng cafe = None"
  by (simp add: distanceKm_def sqlAcos_def lift1_def lift2_def)

lemma distanceKm_nonneg:
  assumes "nonNegativeDistances sql" and "distanceKm sql lat lng cafe = Some d"
  shows "0 \<le> d"
proof -
  from assms(2) obtain y where y: "sqlAcos sql (acosArgument sql lat lng cafe) = Some y"
    and d: "f8_times sql 6371 y = Some d"
    by (auto simp: distanceKm_def lift2_def split: option.splits)
  from y obtain x where "- 1 \<le> x" and "x \<le> 1" and "f8_acos sql x = Some y"
    by (auto simp: sqlAcos_def lift1_def not_less split: option.splits if_splits)
  with assms(1) have "0 \<le> y" unfolding nonNegativeDistances_def by blast
  with assms(1) d show ?thesis unfolding nonNegativeDistances_def by blast
qed

section \<open>Ranking claims\<close>

text \<open>
  Claim C4. For every profile and venue list, the identifiers returned by the ranking are
  those of the first ten venues of a rearrangement of the input that is in non-increasing
  order of score and stable: for each score, the venues with that score appear in it in
  the order in which they were supplied.
\<close>

theorem rank_descending_stable:
  "\<exists>ordered.
     getFallbackRecommendations (RecombeeRecommendationEngine i) profile venues
       = map cafe_id (take 10 ordered)
     \<and> mset ordered = mset venues
     \<and> sorted_wrt (\<lambda>a b. calculateFallbackScore profile b \<le> calculateFallbackScore profile a)
         ordered
     \<and> (\<forall>k. filter (\<lambda>c. calculateFallbackScore profile c = k) ordered
             = filter (\<lambda>c. calculateFallbackScore profile c = k) venues)"
proof -
  let ?f = "calculateFallbackScore profile"
  let ?ordered = "arraySort (\<lambda>a b. ?f b - ?f a) venues"
  have "getFallbackRecommendations (RecombeeRecommendationEngine i) profile venues
          = map cafe_id (take 10 ?ordered)"
    by (rule fallback_as_cafes)
  moreover have "mset ?ordered = mset venues" by (rule mset_arraySort)
  moreover have "sorted_wrt (\<lambda>a b. ?f b \<le> ?f a) ?ordered" by (rule sorted_arraySort)
  moreover have "\<forall>k. filter (\<lambda>c. ?f c = k) ?ordered = filter (\<lambda>c. ?f c = k) venues"
    by (simp add: arraySort_stable)
  ultimately show ?thesis by blast
qed

text \<open>
  Claim C3, as stated, fails: the ranking has no limit parameter. With two venues a limit
  of 1 would give one identifier and a limit of 0 none; the code returns both.
\<close>

theorem rank_limit_counterexample:
  "getFallbackRecommendations (RecombeeRecommendationEngine False) (sampleQuiz ''study'')
     [sampleCafe 1 ''Low'', sampleCafe 2 ''High''] = [2, 1]
   \<and> length [2, 1 :: nat] \<noteq> min 1 (length [sampleCafe 1 ''Low'', sampleCafe 2 ''High''])
   \<and> [2, 1 :: nat] \<noteq> []"
  by (simp add: rankedCafes_def scoredCafes_def arraySort_def byScoreDesc_def score_additive
        ambienceIncludes_def sampleCafe_def sampleQuiz_def)

text \<open>
  Claim C3, amended. The ranking takes a profile and a venue list only; for every profile
  and venue list it returns a sequence of length min(10, number of supplied venues), and
  an empty venue list yields the empty sequence.
\<close>

theorem rank_length:
  "length (getFallbackRecommendations (RecombeeRecommendationEngine i) profile venues)
     = min 10 (length venues)
   \<and> getFallbackRecommendations (RecombeeRecommendationEngine i) profile [] = []"
  using length_fallback_Recombee [of i profile venues]
  by (simp add: rankedCafes_def scoredCafes_def arraySort_Nil)

text \<open>
  Claim C10. For every quiz response and venue list, and for both engine variants, every
  identifier in the output of the fallback is the identifier of a venue of the input, and
  when the identifiers of the input are pairwise distinct the output has no duplicate.
\<close>

theorem fallback_ids_from_input:
  "set (getFallbackRecommendations engine quizResponse venues) \<subseteq> cafe_id ` set venues
   \<and> (distinct (map cafe_id venues)
        \<longrightarrow> distinct (getFallbackRecommendations engine quizResponse venues))"
  using set_fallback_subset distinct_fallback by blast

theorem fallback_ids_from_input_witness:
  "distinct (map cafe_id [sampleCafe 1 ''Low'', sampleCafe 2 ''High''])
   \<and> distinct (getFallbackRecommendations (RecombeeRecommendationEngine True) (sampleQuiz ''study'')
        [sampleCafe 1 ''Low'', sampleCafe 2 ''High''])
   \<and> set (getFallbackRecommendations (RecombeeRecommendationEngine True) (sampleQuiz ''study'')
        [sampleCafe 1 ''Low'', sampleCafe 2 ''High'']) \<subseteq> {1, 2}"
  using fallback_ids_from_input
    [of "RecombeeRecommendationEngine True" "sampleQuiz ''study''"
        "[sampleCafe 1 ''Low'', sampleCafe 2 ''High'']"]
  by (simp add: sampleCafe_def)

section \<open>Engine claims\<close>

text \<open>
  Claim C2, as stated, fails: on two venues of which the second scores higher, the
  rule-based variant answers in input order and the personalized variant by score.
\<close>

theorem fallback_variants_counterexample:
  "getFallbackRecommendations AlgoliaRecommendationEngine (sampleQuiz ''study'')
       [sampleCafe 1 ''Low'', sampleCafe 2 ''High'']
     \<noteq> getFallbackRecommendations (RecombeeRecommendationEngine True) (sampleQuiz ''study'')
          [sampleCafe 1 ''Low'', sampleCafe 2 ''High'']"
  by (simp add: rankedCafes_def scoredCafes_def arraySort_def byScoreDesc_def score_additive
        ambienceIncludes_def sampleCafe_def sampleQuiz_def)

text \<open>
  Claim C2, amended. The fallback of the rule-based variant does not score: for every quiz
  response and venue list it returns the identifiers of the first five venues in input
  order. It returns the same sequence as the fallback of the personalized variant whenever
  at most five venues are supplied and they are supplied in non-increasing order of score.
\<close>

theorem fallback_variants_agree_on_sorted_short_lists:
  "getFallbackRecommendations AlgoliaRecommendationEngine profile venues
     = map cafe_id (take 5 venues)
   \<and> (length venues \<le> 5
        \<and> sorted_wrt (\<lambda>a b. calculateFallbackScore profile b \<le> calculateFallbackScore profile a)
            venues
      \<longrightarrow> getFallbackRecommendations AlgoliaRecommendationEngine profile venues
          = getFallbackRecommendations (RecombeeRecommendationEngine i) profile venues)"
  unfolding fallback_as_cafes by (simp add: arraySort_of_sorted)

theorem fallback_variants_agree_on_sorted_short_lists_witness:
  "length [sampleCafe 2 ''High'', sampleCafe 1 ''Low''] \<le> 5
   \<and> sorted_wrt (\<lambda>a b. calculateFallbackScore (sampleQuiz ''study'') b
                        \<le> calculateFallbackScore (sampleQuiz ''study'') a)
        [sampleCafe 2 ''High'', sampleCafe 1 ''Low'']
   \<and> getFallbackRecommendations AlgoliaRecommendationEngine (sampleQuiz ''study'')
        [sampleCafe 2 ''High'', sampleCafe 1 ''Low''] = [2, 1]
   \<and> getFallbackRecommendations (RecombeeRecommendationEngine True) (sampleQuiz ''study'')
        [sampleCafe 2 ''High'', sampleCafe 1 ''Low''] = [2, 1]"
  using fallback_variants_agree_on_sorted_short_lists
    [of "sampleQuiz ''study''" "[sampleCafe 2 ''High'', sampleCafe 1 ''Low'']" True]
  by (simp add: score_additive ambienceIncludes_def sampleCafe_def sampleQuiz_def)

text \<open>
  Claim C8. For every user identifier and count, and after any sequence of calls that
  initialize the engine or register users, venues and interactions, the recommend
  operation of either variant returns the empty list.
\<close>

theorem recommend_always_empty:
  "getRecommendations (performAll engine calls) userId cnt = []"
  by (rule getRecommendations_empty)

section \<open>Route claims\<close>

text \<open>
  Claim C5, as stated, fails for a user identifier that names no stored user: such a user
  has no stored profile and personalization yields nothing, yet the operation answers
  not-found instead of the empty sequence.
\<close>

theorem recommendations_unknown_user_counterexample:
  "getUser emptyDatabase 1 = None
   \<and> recommendedCafeIds AlgoliaRecommendationEngine emptyDatabase 1 None = Inl UserNotFound
   \<and> recommendedCafeIds AlgoliaRecommendationEngine emptyDatabase 1 None \<noteq> Inr []"
  by (simp add: recommendedCafeIds_def getUser_def emptyDatabase_def)

text \<open>
  Claim C5, amended. For every count and every identifier of a stored user, the operation
  returns the identifier list of the engine's recommend operation when that list is not
  empty; otherwise, if the user has a stored profile, the fallback identifiers of the
  active engine computed from that profile and all venues; and the empty sequence when the
  user has no stored profile. For an identifier that names no stored user it fails with
  not-found.
\<close>

theorem recommendations_for_stored_user:
  "(getUser db userId = None \<longrightarrow>
      recommendedCafeIds engine db userId countParam = Inl UserNotFound)
   \<and> (\<forall>user. getUser db userId = Some user \<longrightarrow>
        recommendedCafeIds engine db userId countParam =
          Inr (let personalized = getRecommendations engine userId (Some (queryCount countParam))
               in if personalized \<noteq> [] then personalized
                  else case quizResponses user of
                         Some profile \<Rightarrow> getFallbackRecommendations engine profile (getAllCafes db)
                       | None \<Rightarrow> []))"
  by (auto simp: recommendedCafeIds_def Let_def getRecommendations_empty split: option.splits)

theorem recommendations_for_stored_user_witness:
  "getUser sampleDatabase 3 = None
   \<and> recommendedCafeIds (RecombeeRecommendationEngine True) sampleDatabase 3 None = Inl UserNotFound
   \<and> getUser sampleDatabase 1 = Some \<lparr>user_id = 1, quizResponses = Some (sampleQuiz ''study'')\<rparr>
   \<and> recommendedCafeIds (RecombeeRecommendationEngine True) sampleDatabase 1 None = Inr [2, 1]"
  using recommendations_for_stored_user
    [of sampleDatabase 3 "RecombeeRecommendationEngine True" None]
    recommendations_for_stored_user
    [of sampleDatabase 1 "RecombeeRecommendationEngine True" None]
  by (simp add: getUser_def getAllCafes_def sampleDatabase_def rankedCafes_def scoredCafes_def
        arraySort_def byScoreDesc_def score_additive ambienceIncludes_def sampleCafe_def
        sampleQuiz_def)

section \<open>Geo filter claims\<close>

text \<open>
  Claim C6, where the code departs from it. Whatever the arithmetic of the database, a
  venue at which the computed argument of \<^verbatim>\<open>acos\<close> exceeds 1 makes the whole selection
  fail, for every radius: no venue is returned, the one at distance zero included. In
  double precision this happens for a venue at the center itself, where the exact
  argument is 1 and the rounded one can be the next double above it.
\<close>

theorem selectNear_fails_above_acos_domain:
  "cafe \<in> set (cafes_table db) \<and> acosArgument sql lat lng cafe = Some x \<and> 1 < x
   \<longrightarrow> getCafesNearLocation sql db lat lng radiusKm = Inl QueryFailed"
proof (intro impI)
  assume h: "cafe \<in> set (cafes_table db) \<and> acosArgument sql lat lng cafe = Some x \<and> 1 < x"
  then have "distanceKm sql lat lng cafe = None" by (simp add: distanceKm_raises)
  then have "map_option (\<lambda>d. d \<le> radiusKm) (distanceKm sql lat lng cafe) = None" by simp
  with h show "getCafesNearLocation sql db lat lng radiusKm = Inl QueryFailed"
    unfolding getCafesNearLocation_def by (intro selectWhere_raises [of cafe]) simp_all
qed

theorem selectNear_fails_above_acos_domain_witness:
  "sampleCafe 1 ''Low'' \<in> set (cafes_table sampleDatabase)
   \<and> acosArgument upwardFloat8 0 0 (sampleCafe 1 ''Low'') = Some (1 + 1 / 2 ^ 52)
   \<and> (1 :: real) < 1 + 1 / 2 ^ 52
   \<and> getCafesNearLocation upwardFloat8 sampleDatabase 0 0 5 = Inl QueryFailed"
  using selectNear_fails_above_acos_domain
    [of "sampleCafe 1 ''Low''" sampleDatabase upwardFloat8 0 0 "1 + 1 / 2 ^ 52" 5]
  by (simp add: acosArgument_def upwardFloat8_def exactFloat8_def lift1_def lift2_def
        radians_def sampleCafe_def sampleDatabase_def)

text \<open>
  Claim C7, as stated, fails: with radius -1 the geo filter returns a result, the empty
  sequence, and not an invalid-argument error. On the empty table no distance is
  evaluated; on the sample table, whose venues lie at the center (0, 0), every operation
  is exact.
\<close>

theorem selectNear_negative_radius_counterexample:
  "getCafesNearLocation exactFloat8 emptyDatabase 0 0 (- 1) = Inr []
   \<and> getCafesNearLocation exactFloat8 emptyDatabase 0 0 (- 1) \<noteq> Inl InvalidArgument
   \<and> getCafesNearLocation exactFloat8 sampleDatabase 0 0 (- 1) = Inr []"
  by (simp add: getCafesNearLocation_def emptyDatabase_def sampleDatabase_def sampleCafe_def
        distanceKm_def sqlAcos_def acosArgument_def exactFloat8_def lift1_def lift2_def
        radians_def)

text \<open>
  Claim C7, amended. For every venue table, center and radius, the geo filter does not
  fail with an invalid-argument error: the radius is not validated. Called with a negative
  radius, whenever the database evaluates the distance of every venue, it selects no venue
  and returns the empty sequence; this holds for every arithmetic in which \<^verbatim>\<open>acos\<close>
  yields no negative number and 6371 times a number that is not negative is not negative.
  What happens when the evaluation of a distance raises is left open here.
\<close>

theorem selectNear_negative_radius_not_rejected:
  "getCafesNearLocation sql db lat lng radiusKm \<noteq> Inl InvalidArgument
   \<and> (radiusKm < 0 \<and> nonNegativeDistances sql
        \<and> (\<forall>cafe\<in>set (cafes_table db). distanceKm sql lat lng cafe \<noteq> None)
      \<longrightarrow> getCafesNearLocation sql db lat lng radiusKm = Inr [])"
proof (intro conjI impI)
  show "getCafesNearLocation sql db lat lng radiusKm \<noteq> Inl InvalidArgument"
    unfolding getCafesNearLocation_def using selectWhere_error by fastforce
next
  assume h: "radiusKm < 0 \<and> nonNegativeDistances sql
    \<and> (\<forall>cafe\<in>set (cafes_table db). distanceKm sql lat lng cafe \<noteq> None)"
  let ?cond = "\<lambda>cafe. map_option (\<lambda>d. d \<le> radiusKm) (distanceKm sql lat lng cafe)"
  from h have ev: "\<forall>cafe\<in>set (cafes_table db). ?cond cafe \<noteq> None" by simp
  have "?cond cafe \<noteq> Some True" for cafe
  proof
    assume "?cond cafe = Some True"
    then obtain d where d: "distanceKm sql lat lng cafe = Some d" and "d \<le> radiusKm"
      by auto
    with h distanceKm_nonneg [OF _ d] show False by simp
  qed
  then have "filter (\<lambda>cafe. ?cond cafe = Some True) (cafes_table db) = []" by simp
  with selectWhere_evaluates [OF ev]
  show "getCafesNearLocation sql db lat lng radiusKm = Inr []"
    by (simp add: getCafesNearLocation_def)
qed

theorem selectNear_negative_radius_not_rejected_witness:
  "(- 1 :: real) < 0
   \<and> distanceKm exactFloat8 0 0 (sampleCafe 1 ''Low'') \<noteq> None
   \<and> distanceKm exactFloat8 0 0 (sampleCafe 2 ''High'') \<noteq> None
   \<and> getCafesNearLocation exactFloat8 sampleDatabase 0 0 (- 1) = Inr []
   \<and> getCafesNearLocation exactFloat8 sampleDatabase 0 0 (- 1) \<noteq> Inl InvalidArgument"
  using selectNear_negative_radius_not_rejected [of exactFloat8 sampleDatabase 0 0 "- 1"]
    exactFloat8_nonNegative
  by (simp add: exact_distance_is_haversine)

end
